theory Spec2Isabelle
  imports Main
begin

section \<open>JavaScript values and objects\<close>

text \<open>
  The values that flow through \<open>server.js\<close>: request bodies parsed from JSON, the
  connection configuration \<open>dbConfig\<close> and the response bodies handed to
  \<open>res.json\<close>. An object is a finite map from property names to values; reading an
  absent property gives \<open>undefined\<close>. Numbers are the integers, with \<open>NaN\<close> apart
  (what \<open>parseInt\<close> answers on a string with no digits).
\<close>

datatype jsval =
    JUndefined
  | JNull
  | JBool bool
  | JNum int
  | JNaN
  | JStr string
  | JArr "jsval list"
  | JObj "string \<Rightarrow> jsval option"

type_synonym obj = "string \<Rightarrow> jsval option"

text \<open>Truthiness, as \<open>!v\<close> and \<open>v || d\<close> read it.\<close>

fun truthy :: "jsval \<Rightarrow> bool" where
  "truthy JUndefined = False"
| "truthy JNull = False"
| "truthy (JBool b) = b"
| "truthy (JNum n) = (n \<noteq> 0)"
| "truthy JNaN = False"
| "truthy (JStr s) = (s \<noteq> [])"
| "truthy (JArr xs) = True"
| "truthy (JObj ob) = True"

text \<open>Property read \<open>ob.k\<close>.\<close>

definition get_prop :: "obj \<Rightarrow> string \<Rightarrow> jsval" where
  "get_prop ob k = (case ob k of None \<Rightarrow> JUndefined | Some v \<Rightarrow> v)"

text \<open>Object spread \<open>{ ...a, ...b }\<close>: the properties of \<open>b\<close> override those of \<open>a\<close>.\<close>

definition spread :: "obj \<Rightarrow> obj \<Rightarrow> obj" where
  "spread a b = a ++ b"

section \<open>Pool handles, the driver and the module state\<close>

text \<open>
  A pool handle as \<open>mysql.createPool\<close> returns it: a fresh identity and the options it
  was built from.
\<close>

record handle =
  hid :: nat
  options :: obj

text \<open>
  The calls made on the driver, in the order they are made, each recorded when it is
  made. \<open>End h\<close> is \<open>h.end()\<close>, the close of a pool.
\<close>

datatype event =
    CreatePool handle
  | GetConnection handle
  | Release handle
  | End handle
  | Execute handle string "jsval list"

text \<open>
  The module-level variables of \<open>server.js\<close> (\<open>dbConfig\<close>, \<open>pool\<close>,
  \<open>isPoolHealthy\<close>) together with the driver's side: the number of pools created so
  far and the trace of driver calls. \<open>pool = None\<close> is the variable before its first
  assignment (\<open>let pool;\<close>).
\<close>

record state =
  dbConfig :: obj
  pool :: "handle option"
  isPoolHealthy :: bool
  created :: nat
  trace :: "event list"

text \<open>
  How an awaited driver promise settles is decided outside the program (by the database
  and the network), so it is an argument of the model.
\<close>

datatype 'a outcome = Resolved 'a | Rejected string

text \<open>
  A JavaScript computation either throws (\<open>Inl\<close> of the error's message) or returns
  (\<open>Inr\<close>), and leaves a state.
\<close>

type_synonym 'a js = "(string + 'a) \<times> state"

definition record_call :: "event \<Rightarrow> state \<Rightarrow> state" where
  "record_call e s = s\<lparr>trace := trace s @ [e]\<rparr>"

definition createPool :: "obj \<Rightarrow> state \<Rightarrow> handle \<times> state" where
  "createPool opts s =
     (let h = \<lparr>hid = created s, options = opts\<rparr>
      in (h, record_call (CreatePool h) (s\<lparr>created := Suc (created s)\<rparr>)))"

text \<open>
  \<open>await p.getConnection()\<close>: the connection is represented by the pool it belongs
  to, which is all that \<open>release\<close> needs.
\<close>

definition getConnection :: "handle \<Rightarrow> unit outcome \<Rightarrow> state \<Rightarrow> handle js" where
  "getConnection p out s =
     (case out of
        Resolved u \<Rightarrow> (Inr p, record_call (GetConnection p) s)
      | Rejected m \<Rightarrow> (Inl m, record_call (GetConnection p) s))"

definition release :: "handle \<Rightarrow> state \<Rightarrow> state" where
  "release c s = record_call (Release c) s"

definition pool_end :: "handle \<Rightarrow> unit outcome \<Rightarrow> state \<Rightarrow> unit js" where
  "pool_end p out s =
     (case out of
        Resolved u \<Rightarrow> (Inr (), record_call (End p) s)
      | Rejected m \<Rightarrow> (Inl m, record_call (End p) s))"

text \<open>
  \<open>await pool.execute(sql, params)\<close> on the module variable \<open>pool\<close>: with the
  variable still undefined the member access throws a TypeError and the driver is never
  reached.
\<close>

definition type_error :: string where
  "type_error = ''Cannot read properties of undefined''"

definition execute :: "string \<Rightarrow> jsval list \<Rightarrow> jsval list outcome \<Rightarrow> state \<Rightarrow> (jsval list) js" where
  "execute sql params out s =
     (case pool s of
        None \<Rightarrow> (Inl type_error, s)
      | Some p \<Rightarrow>
          (case out of
             Resolved rows \<Rightarrow> (Inr rows, record_call (Execute p sql params) s)
           | Rejected m \<Rightarrow> (Inl m, record_call (Execute p sql params) s)))"

definition closed :: "state \<Rightarrow> handle \<Rightarrow> bool" where
  "closed s h = (End h \<in> set (trace s))"

section \<open>The health probe\<close>

text \<open>
  \<open>isPoolReady\<close> (server.js, lines 28 to 39). The argument is how
  \<open>pool.getConnection()\<close> settles, should the function get as far as calling it.
\<close>

definition isPoolReady :: "unit outcome \<Rightarrow> state \<Rightarrow> bool js" where
  "isPoolReady acq s =
     (case pool s of
        None \<Rightarrow> (Inr False, s)
      | Some p \<Rightarrow>
          (case getConnection p acq s of
             (Inr connection, s1) \<Rightarrow> (Inr True, release connection s1)
           | (Inl error, s1) \<Rightarrow> (Inr False, s1)))"

section \<open>Reconfiguration\<close>

record result =
  success :: bool
  message :: string

definition pool_options :: obj where
  "pool_options =
     [''waitForConnections'' \<mapsto> JBool True,
      ''connectionLimit'' \<mapsto> JNum 10,
      ''queueLimit'' \<mapsto> JNum 0]"

text \<open>
  \<open>initializeDatabase\<close> (lines 41 to 61): \<open>None\<close> is \<open>process.exit(1)\<close>, the process
  gone before it serves a request.
\<close>

definition initializeDatabase :: "unit outcome \<Rightarrow> state \<Rightarrow> state option" where
  "initializeDatabase probe s =
     (let (p, s1) = createPool (spread (dbConfig s) pool_options) s;
          s2 = s1\<lparr>pool := Some p\<rparr>
      in case getConnection p probe s2 of
           (Inr connection, s3) \<Rightarrow> Some ((release connection s3)\<lparr>isPoolHealthy := True\<rparr>)
         | (Inl e, s3) \<Rightarrow> None)"

definition updated_message :: string where
  "updated_message = ''Database configuration updated successfully''"

text \<open>
  The \<open>try\<close> block of \<open>updateDatabaseConfig\<close> (lines 64 to 110), run without another
  request interleaving. The three outcomes are, in order, those of the probe of the
  current pool (line 70, consulted only when there is a pool), of
  \<open>newPool.getConnection()\<close> (line 88) and of \<open>oldPool.end()\<close> (line 97, consulted
  only when there was a pool). Logging is left out.
\<close>

definition update_try :: "obj \<Rightarrow> unit outcome \<Rightarrow> unit outcome \<Rightarrow> unit outcome \<Rightarrow> state \<Rightarrow> result js" where
  "update_try newConfig oldProbe candProbe endOut s =
     (case (case pool s of
              None \<Rightarrow> (Inr False, s)
            | Some p \<Rightarrow> isPoolReady oldProbe s) of
        (Inl e, s1) \<Rightarrow> (Inl e, s1)
      | (Inr ready, s1) \<Rightarrow>
          (let oldPool = pool s1;
               s2 = s1\<lparr>dbConfig := spread (dbConfig s1) newConfig\<rparr>;
               (newPool, s3) = createPool (spread (dbConfig s2) pool_options) s2
           in case getConnection newPool candProbe s3 of
                (Inl e, s4) \<Rightarrow> (Inl e, s4)
              | (Inr testConnection, s4) \<Rightarrow>
                  (let s5 = release testConnection s4;
                       s6 = (case oldPool of
                               None \<Rightarrow> s5
                             | Some op \<Rightarrow>
                                 (case pool_end op endOut s5 of
                                    (Inr u, s') \<Rightarrow> s'
                                  | (Inl closeError, s') \<Rightarrow> s'));
                       s7 = s6\<lparr>pool := Some newPool, isPoolHealthy := True\<rparr>
                   in (Inr \<lparr>success = True, message = updated_message\<rparr>, s7))))"

text \<open>\<open>updateDatabaseConfig\<close> (lines 63 to 122): the \<open>try\<close> block and its \<open>catch\<close>.\<close>

definition updateDatabaseConfig :: "obj \<Rightarrow> unit outcome \<Rightarrow> unit outcome \<Rightarrow> unit outcome \<Rightarrow> state \<Rightarrow> result js" where
  "updateDatabaseConfig newConfig oldProbe candProbe endOut s =
     (case update_try newConfig oldProbe candProbe endOut s of
        (Inr r, s') \<Rightarrow> (Inr r, s')
      | (Inl msg, s') \<Rightarrow>
          (let s'' = (case pool s' of
                        None \<Rightarrow> s'
                      | Some p \<Rightarrow> s'\<lparr>isPoolHealthy := False\<rparr>)
           in (Inr \<lparr>success = False, message = msg\<rparr>, s'')))"

section \<open>Reconfiguration, one suspension at a time\<close>

text \<open>
  \<open>updateDatabaseConfig\<close> is an \<open>async\<close> function: it gives control back at each
  \<open>await\<close> on the driver, and other requests run in between. A call in progress is
  where it is suspended, with the local variables it holds there:
  \<^item> \<open>Start newConfig\<close>: called, nothing run yet;
  \<^item> \<open>AwaitOldProbe newConfig p\<close>: inside \<open>isPoolReady\<close>, at
    \<open>await pool.getConnection()\<close> (line 32) on the pool \<open>p\<close>;
  \<^item> \<open>AwaitCandidate oldPool newPool\<close>: at \<open>await newPool.getConnection()\<close> (line 88);
  \<^item> \<open>AwaitEnd newPool\<close>: at \<open>await oldPool.end()\<close> (line 97);
  \<^item> \<open>Done r\<close>: returned \<open>r\<close>.
\<close>

datatype task =
    Start obj
  | AwaitOldProbe obj handle
  | AwaitCandidate "handle option" handle
  | AwaitEnd handle
  | Done result

text \<open>Lines 75 to 88: from \<open>const oldPool = pool\<close> up to the call of \<open>newPool.getConnection()\<close>.\<close>

definition build_candidate :: "obj \<Rightarrow> state \<Rightarrow> task \<times> state" where
  "build_candidate newConfig s =
     (let oldPool = pool s;
          s2 = s\<lparr>dbConfig := spread (dbConfig s) newConfig\<rparr>;
          (newPool, s3) = createPool (spread (dbConfig s2) pool_options) s2
      in (AwaitCandidate oldPool newPool, record_call (GetConnection newPool) s3))"

text \<open>
  \<open>resume out t s\<close> runs the call \<open>t\<close> from where it is suspended to its next
  suspension; \<open>out\<close> is how the promise it was waiting for has settled (unused by
  \<open>Start\<close>). A driver call is recorded in the trace when it is made.
\<close>

fun resume :: "unit outcome \<Rightarrow> task \<Rightarrow> state \<Rightarrow> task \<times> state" where
  "resume out (Start newConfig) s =
     (case pool s of
        None \<Rightarrow> build_candidate newConfig s
      | Some p \<Rightarrow> (AwaitOldProbe newConfig p, record_call (GetConnection p) s))"
| "resume out (AwaitOldProbe newConfig p) s =
     (case out of
        Resolved u \<Rightarrow> build_candidate newConfig (release p s)
      | Rejected m \<Rightarrow> build_candidate newConfig s)"
| "resume out (AwaitCandidate oldPool newPool) s =
     (case out of
        Rejected m \<Rightarrow>
          (Done \<lparr>success = False, message = m\<rparr>,
           (case pool s of None \<Rightarrow> s | Some p \<Rightarrow> s\<lparr>isPoolHealthy := False\<rparr>))
      | Resolved u \<Rightarrow>
          (let s5 = release newPool s
           in case oldPool of
                None \<Rightarrow>
                  (Done \<lparr>success = True, message = updated_message\<rparr>,
                   s5\<lparr>pool := Some newPool, isPoolHealthy := True\<rparr>)
              | Some op \<Rightarrow> (AwaitEnd newPool, record_call (End op) s5)))"
| "resume out (AwaitEnd newPool) s =
     (Done \<lparr>success = True, message = updated_message\<rparr>,
      s\<lparr>pool := Some newPool, isPoolHealthy := True\<rparr>)"
| "resume out (Done r) s = (Done r, s)"

text \<open>
  Several calls in progress over the one module state. A schedule is the order in which
  the event loop resumes them: which call, and how its awaited promise settled.
\<close>

fun deliver :: "task list \<times> state \<Rightarrow> nat \<times> unit outcome \<Rightarrow> task list \<times> state" where
  "deliver (ts, s) (i, out) =
     (if i < length ts
      then (let (t', s') = resume out (ts ! i) s in (ts[i := t'], s'))
      else (ts, s))"

definition run :: "(nat \<times> unit outcome) list \<Rightarrow> task list \<times> state \<Rightarrow> task list \<times> state" where
  "run schedule c = foldl deliver c schedule"

text \<open>The Validating state of the protocol: a candidate pool is built and its probe is awaited.\<close>

fun validating :: "task \<Rightarrow> bool" where
  "validating (AwaitCandidate oldPool newPool) = True"
| "validating t = False"

section \<open>Request handlers\<close>

record response =
  status :: nat
  body :: jsval

definition error_body :: "string \<Rightarrow> jsval" where
  "error_body msg = JObj [''error'' \<mapsto> JStr msg]"

definition result_json :: "result \<Rightarrow> jsval" where
  "result_json r = JObj [''success'' \<mapsto> JBool (success r), ''message'' \<mapsto> JStr (message r)]"

text \<open>
  \<open>rows.map(row => ...)\<close>: the field mapping of a row is a parameter (it calls
  \<open>JSON.parse\<close>, which may throw); the first row that throws ends the map.
\<close>

fun map_rows :: "(jsval \<Rightarrow> string + jsval) \<Rightarrow> jsval list \<Rightarrow> string + jsval list" where
  "map_rows f [] = Inr []"
| "map_rows f (row # rows) =
     (case f row of
        Inl e \<Rightarrow> Inl e
      | Inr v \<Rightarrow> (case map_rows f rows of Inl e \<Rightarrow> Inl e | Inr vs \<Rightarrow> Inr (v # vs)))"

text \<open>
  \<open>GET /api/profiles\<close> (lines 130 to 183). \<open>probe\<close> and \<open>query\<close> are how
  \<open>pool.getConnection()\<close> and \<open>pool.execute(...)\<close> settle.
\<close>

definition get_profiles ::
  "(jsval \<Rightarrow> string + jsval) \<Rightarrow> unit outcome \<Rightarrow> jsval list outcome \<Rightarrow> state \<Rightarrow> response \<times> state" where
  "get_profiles mapRow probe query s =
     (case isPoolReady probe s of
        (Inl e, s1) \<Rightarrow> (\<lparr>status = 500, body = error_body ''Failed to fetch profiles''\<rparr>, s1)
      | (Inr ready, s1) \<Rightarrow>
          (if \<not> ready
           then (\<lparr>status = 500, body = error_body ''Database connection not ready''\<rparr>, s1)
           else (case execute ''SELECT * FROM user ORDER BY name'' [] query s1 of
                   (Inl e, s2) \<Rightarrow>
                     (\<lparr>status = 500, body = error_body ''Failed to fetch profiles''\<rparr>, s2)
                 | (Inr rows, s2) \<Rightarrow>
                     (case map_rows mapRow rows of
                        Inl e \<Rightarrow>
                          (\<lparr>status = 500, body = error_body ''Failed to fetch profiles''\<rparr>, s2)
                      | Inr profiles \<Rightarrow> (\<lparr>status = 200, body = JArr profiles\<rparr>, s2)))))"

text \<open>\<open>GET /api/profiles/:id\<close> (lines 186 to 229).\<close>

definition get_profile_by_id ::
  "(jsval \<Rightarrow> string + jsval) \<Rightarrow> jsval \<Rightarrow> jsval list outcome \<Rightarrow> state \<Rightarrow> response \<times> state" where
  "get_profile_by_id mapRow ident query s =
     (case execute ''SELECT * FROM user WHERE id = ?'' [ident] query s of
        (Inl e, s1) \<Rightarrow> (\<lparr>status = 500, body = error_body ''Failed to fetch profile''\<rparr>, s1)
      | (Inr rows, s1) \<Rightarrow>
          (case rows of
             [] \<Rightarrow> (\<lparr>status = 404, body = error_body ''Profile not found''\<rparr>, s1)
           | profile # rest \<Rightarrow>
               (case mapRow profile of
                  Inl e \<Rightarrow> (\<lparr>status = 500, body = error_body ''Failed to fetch profile''\<rparr>, s1)
                | Inr mappedProfile \<Rightarrow> (\<lparr>status = 200, body = mappedProfile\<rparr>, s1))))"

text \<open>
  \<open>PUT /api/database/config\<close> (lines 739 to 772). \<open>reqBody\<close> is \<open>req.body\<close>, the
  parsed JSON object; \<open>parseInt\<close> is the language's own function, a parameter here.
\<close>

definition missing_fields_message :: string where
  "missing_fields_message = ''Missing required fields: host, port, username, database''"

definition requested_config :: "(jsval \<Rightarrow> jsval) \<Rightarrow> obj \<Rightarrow> obj" where
  "requested_config parseInt reqBody =
     [''host'' \<mapsto> get_prop reqBody ''host'',
      ''port'' \<mapsto> parseInt (get_prop reqBody ''port''),
      ''user'' \<mapsto> get_prop reqBody ''username'',
      ''password'' \<mapsto>
         (if truthy (get_prop reqBody ''password'') then get_prop reqBody ''password'' else JStr []),
      ''database'' \<mapsto> get_prop reqBody ''database'']"

definition put_database_config ::
  "(jsval \<Rightarrow> jsval) \<Rightarrow> obj \<Rightarrow> unit outcome \<Rightarrow> unit outcome \<Rightarrow> unit outcome \<Rightarrow> state \<Rightarrow> response \<times> state" where
  "put_database_config parseInt reqBody oldProbe candProbe endOut s =
     (let host = get_prop reqBody ''host'';
          port = get_prop reqBody ''port'';
          username = get_prop reqBody ''username'';
          database = get_prop reqBody ''database''
      in if \<not> truthy host \<or> \<not> truthy port \<or> \<not> truthy username \<or> \<not> truthy database
         then (\<lparr>status = 400,
                 body = result_json \<lparr>success = False, message = missing_fields_message\<rparr>\<rparr>, s)
         else (case updateDatabaseConfig (requested_config parseInt reqBody)
                      oldProbe candProbe endOut s of
                 (Inr r, s') \<Rightarrow>
                   (if success r
                    then (\<lparr>status = 200, body = result_json r\<rparr>, s')
                    else (\<lparr>status = 500, body = result_json r\<rparr>, s'))
               | (Inl e, s') \<Rightarrow>
                   (\<lparr>status = 500,
                     body = result_json
                       \<lparr>success = False,
                        message = ''Failed to update database configuration''\<rparr>\<rparr>, s')))"

text \<open>
  \<open>GET /api/database/config\<close> (lines 775 to 786): the object handed to \<open>res.json\<close>.
\<close>

definition redacted_config :: "obj \<Rightarrow> obj" where
  "redacted_config cfg =
     [''host'' \<mapsto> get_prop cfg ''host'',
      ''port'' \<mapsto> get_prop cfg ''port'',
      ''username'' \<mapsto> get_prop cfg ''user'',
      ''database'' \<mapsto> get_prop cfg ''database'']"

definition get_database_config :: "state \<Rightarrow> response" where
  "get_database_config s =
     \<lparr>status = 200,
      body = JObj [''success'' \<mapsto> JBool True, ''config'' \<mapsto> JObj (redacted_config (dbConfig s))]\<rparr>"

section \<open>Schedules and example states\<close>

text \<open>
  A call run alone: the schedule that resumes it at each of its suspensions, with the
  outcomes in the order \<open>updateDatabaseConfig\<close> takes them.
\<close>

definition alone :: "state \<Rightarrow> unit outcome \<Rightarrow> unit outcome \<Rightarrow> unit outcome \<Rightarrow> (nat \<times> unit outcome) list" where
  "alone s oldProbe candProbe endOut =
     (case pool s of
        None \<Rightarrow> [(0, Resolved ()), (0, candProbe)]
      | Some p \<Rightarrow> [(0, Resolved ()), (0, oldProbe), (0, candProbe), (0, endOut)])"

text \<open>
  Two calls issued together: both are started, then both probes of the current pool (if
  there is one) settle, the first call's first.
\<close>

definition overlapped :: "state \<Rightarrow> unit outcome \<Rightarrow> unit outcome \<Rightarrow> (nat \<times> unit outcome) list" where
  "overlapped s probe0 probe1 =
     (case pool s of
        None \<Rightarrow> [(0, Resolved ()), (1, Resolved ())]
      | Some p \<Rightarrow> [(0, Resolved ()), (1, Resolved ()), (0, probe0), (1, probe1)])"

text \<open>The configuration of lines 15 to 21 with no environment variable set.\<close>

definition default_config :: obj where
  "default_config =
     [''host'' \<mapsto> JStr ''localhost'',
      ''port'' \<mapsto> JNum 3306,
      ''user'' \<mapsto> JStr ''root'',
      ''password'' \<mapsto> JStr [],
      ''database'' \<mapsto> JStr ''talent'']"

text \<open>The module just loaded, and the module after \<open>initializeDatabase\<close> has succeeded.\<close>

definition startup :: state where
  "startup =
     \<lparr>dbConfig = default_config, pool = None, isPoolHealthy = False, created = 0, trace = []\<rparr>"

definition first_pool :: handle where
  "first_pool = \<lparr>hid = 0, options = spread default_config pool_options\<rparr>"

text \<open>
  In between: \<open>initializeDatabase\<close> has created the pool and is suspended at its
  \<open>await pool.getConnection()\<close> (line 51), while the server already takes requests.
\<close>

definition connecting :: state where
  "connecting =
     \<lparr>dbConfig = default_config, pool = Some first_pool, isPoolHealthy = False, created = 1,
      trace = [CreatePool first_pool, GetConnection first_pool]\<rparr>"

definition serving :: state where
  "serving =
     \<lparr>dbConfig = default_config, pool = Some first_pool, isPoolHealthy = True, created = 1,
      trace = [CreatePool first_pool, GetConnection first_pool, Release first_pool]\<rparr>"

text \<open>A request body for \<open>PUT /api/database/config\<close> naming the host \<open>h\<close>.\<close>

definition put_body :: "string \<Rightarrow> obj" where
  "put_body h =
     [''host'' \<mapsto> JStr h,
      ''port'' \<mapsto> JNum 3306,
      ''username'' \<mapsto> JStr ''root'',
      ''database'' \<mapsto> JStr ''talent'']"

text \<open>
  The configuration the handler passes on for that body. \<open>parseInt(3306)\<close> is
  \<open>3306\<close>, so on this body \<open>parseInt\<close> is the identity.
\<close>

definition other_host :: obj where
  "other_host = requested_config (\<lambda>v. v) (put_body ''10.0.0.9'')"

definition timed_out :: "unit outcome" where
  "timed_out = Rejected ''connect ETIMEDOUT''"

text \<open>
  The runs the examples below look at: a reconfiguration of the serving module to
  \<open>other_host\<close> whose candidate probe times out, and one whose candidate probe
  succeeds.
\<close>

definition failed_run :: "result js" where
  "failed_run = updateDatabaseConfig other_host (Resolved ()) timed_out (Resolved ()) serving"

definition good_run :: "result js" where
  "good_run = updateDatabaseConfig other_host (Resolved ()) (Resolved ()) (Resolved ()) serving"

definition second_pool :: handle where
  "second_pool = \<lparr>hid = 1, options = spread (spread default_config other_host) pool_options\<rparr>"


definition with_password :: "string \<Rightarrow> state" where
  "with_password pw = serving\<lparr>dbConfig := default_config(''password'' \<mapsto> JStr pw)\<rparr>"

text \<open>
  A partial reconfiguration, as a direct caller of \<open>updateDatabaseConfig\<close> can ask
  for: only the host changes.
\<close>

definition host_only :: obj where
  "host_only = [''host'' \<mapsto> JStr ''10.0.0.9'']"

definition partial_run :: "result js" where
  "partial_run = updateDatabaseConfig host_only (Resolved ()) (Resolved ()) timed_out serving"

definition partial_pool :: handle where
  "partial_pool = \<lparr>hid = 1, options = spread (spread default_config host_only) pool_options\<rparr>"

text \<open>
  The candidate of a second call, for \<open>host_only\<close>, started while a first call for
  \<open>other_host\<close> is in progress.
\<close>

definition third_pool :: handle where
  "third_pool =
     \<lparr>hid = 2,
      options = spread (spread (spread default_config other_host) host_only) pool_options\<rparr>"

section \<open>The states in which a request is handled\<close>

text \<open>
  The module as lines 15 to 25 leave it, \<open>cfg\<close> being what the environment makes of
  \<open>dbConfig\<close>.
\<close>

definition module_loaded :: "obj \<Rightarrow> state" where
  "module_loaded cfg =
     \<lparr>dbConfig = cfg, pool = None, isPoolHealthy = False, created = 0, trace = []\<rparr>"

text \<open>
  \<open>initializeDatabase()\<close> as line 125 calls it, before any route is registered and
  before \<open>app.listen\<close> (line 789): it runs to its first \<open>await\<close> (line 51), so the
  assignment of \<open>pool\<close> (line 43) is done when the call gives control back.
\<close>

definition begin_initialize :: "state \<Rightarrow> handle \<times> state" where
  "begin_initialize s =
     (let (p, s1) = createPool (spread (dbConfig s) pool_options) s;
          s2 = s1\<lparr>pool := Some p\<rparr>
      in (p, record_call (GetConnection p) s2))"

text \<open>
  Its continuation once the probe has resolved (lines 52 to 54). When the probe is
  rejected the process exits (line 58) and handles nothing further.
\<close>

definition finish_initialize :: "handle \<Rightarrow> state \<Rightarrow> state" where
  "finish_initialize connection s = (release connection s)\<lparr>isPoolHealthy := True\<rparr>"

text \<open>
  What the listening server does to the module state: the startup probe resolves, a call
  of \<open>updateDatabaseConfig\<close> is started or resumed, or a handler runs. The handlers of
  \<open>server.js\<close> that are not modelled here only call \<open>pool.execute\<close>; \<open>pool\<close>
  is assigned at lines 43 and 106 and nowhere else. The handles and calls in progress are
  left arbitrary, which allows more states than the server can be in.
\<close>

datatype activity =
    InitSettled handle
  | Continue "unit outcome" task
  | Health "unit outcome"
  | Profiles "jsval \<Rightarrow> string + jsval" "unit outcome" "jsval list outcome"
  | ProfileById "jsval \<Rightarrow> string + jsval" jsval "jsval list outcome"
  | PutConfig "jsval \<Rightarrow> jsval" obj "unit outcome" "unit outcome" "unit outcome"

fun perform :: "activity \<Rightarrow> state \<Rightarrow> state" where
  "perform (InitSettled connection) s = finish_initialize connection s"
| "perform (Continue out t) s = snd (resume out t s)"
| "perform (Health acq) s = snd (isPoolReady acq s)"
| "perform (Profiles mapRow probe query) s = snd (get_profiles mapRow probe query s)"
| "perform (ProfileById mapRow ident query) s = snd (get_profile_by_id mapRow ident query s)"
| "perform (PutConfig parseInt reqBody oldProbe candProbe endOut) s =
     snd (put_database_config parseInt reqBody oldProbe candProbe endOut s)"

text \<open>The module state after the server has started listening and done \<open>acts\<close>.\<close>

definition listening :: "obj \<Rightarrow> activity list \<Rightarrow> state" where
  "listening cfg acts =
     foldl (\<lambda>s a. perform a s) (snd (begin_initialize (module_loaded cfg))) acts"

section \<open>Facts about the driver model and the examples\<close>

lemmas driver_defs = record_call_def createPool_def getConnection_def release_def pool_end_def

lemma spread_absent: "b k = None \<Longrightarrow> spread a b k = a k"
  by (simp add: spread_def map_add_def)

lemma spread_present: "b k = Some v \<Longrightarrow> spread a b k = Some v"
  by (simp add: spread_def map_add_def)

lemma serving_after_startup: "initializeDatabase (Resolved ()) startup = Some serving"
  by (simp add: initializeDatabase_def startup_def serving_def first_pool_def driver_defs Let_def)

lemma other_host_eq:
  "other_host =
     [''host'' \<mapsto> JStr ''10.0.0.9'', ''port'' \<mapsto> JNum 3306, ''user'' \<mapsto> JStr ''root'',
      ''password'' \<mapsto> JStr [], ''database'' \<mapsto> JStr ''talent'']"
  by (simp add: other_host_def requested_config_def put_body_def get_prop_def)

lemma failed_run_eq:
  "failed_run =
     (Inr \<lparr>success = False, message = ''connect ETIMEDOUT''\<rparr>,
      \<lparr>dbConfig = spread default_config other_host, pool = Some first_pool,
       isPoolHealthy = False, created = 2,
       trace = [CreatePool first_pool, GetConnection first_pool, Release first_pool,
                GetConnection first_pool, Release first_pool,
                CreatePool second_pool, GetConnection second_pool]\<rparr>)"
  by (simp add: failed_run_def updateDatabaseConfig_def update_try_def isPoolReady_def
      driver_defs serving_def second_pool_def timed_out_def Let_def)

lemma good_run_eq:
  "good_run =
     (Inr \<lparr>success = True, message = updated_message\<rparr>,
      \<lparr>dbConfig = spread default_config other_host, pool = Some second_pool,
       isPoolHealthy = True, created = 2,
       trace = [CreatePool first_pool, GetConnection first_pool, Release first_pool,
                GetConnection first_pool, Release first_pool,
                CreatePool second_pool, GetConnection second_pool, Release second_pool,
                End first_pool]\<rparr>)"
  by (simp add: good_run_def updateDatabaseConfig_def update_try_def isPoolReady_def
      driver_defs serving_def second_pool_def Let_def)

lemma example_hosts:
  "get_prop default_config ''host'' = JStr ''localhost''"
  "get_prop (spread default_config other_host) ''host'' = JStr ''10.0.0.9''"
  "get_prop (spread default_config host_only) ''host'' = JStr ''10.0.0.9''"
  "get_prop (spread default_config host_only) ''port'' = JNum 3306"
  by (simp_all add: get_prop_def default_config_def spread_def other_host_eq host_only_def)


lemma update_returns:
  "\<exists>r s'. updateDatabaseConfig newConfig oldProbe candProbe endOut s = (Inr r, s')"
  by (auto simp: updateDatabaseConfig_def Let_def split: prod.splits sum.splits)

lemma update_failure:
  "updateDatabaseConfig newConfig oldProbe (Rejected m) endOut s = (r, s') \<Longrightarrow>
   r = Inr \<lparr>success = False, message = m\<rparr> \<and> pool s' = pool s \<and>
   dbConfig s' = spread (dbConfig s) newConfig \<and>
   isPoolHealthy s' = (case pool s of None \<Rightarrow> isPoolHealthy s | Some p \<Rightarrow> False) \<and>
   created s' = Suc (created s)"
  by (auto simp: updateDatabaseConfig_def update_try_def isPoolReady_def driver_defs Let_def
      split: option.splits outcome.splits prod.splits sum.splits)

lemma update_failure_trace:
  "updateDatabaseConfig newConfig oldProbe (Rejected m) endOut s = (r, s') \<Longrightarrow>
   closed s' h = closed s h \<and>
   CreatePool \<lparr>hid = created s, options = spread (spread (dbConfig s) newConfig) pool_options\<rparr>
     \<in> set (trace s')"
  by (auto simp: updateDatabaseConfig_def update_try_def isPoolReady_def driver_defs Let_def
        closed_def
      split: option.splits outcome.splits prod.splits sum.splits)

lemma update_success:
  "updateDatabaseConfig newConfig oldProbe (Resolved u) endOut s = (r, s') \<Longrightarrow>
   r = Inr \<lparr>success = True, message = updated_message\<rparr> \<and>
   pool s' =
     Some \<lparr>hid = created s, options = spread (spread (dbConfig s) newConfig) pool_options\<rparr> \<and>
   dbConfig s' = spread (dbConfig s) newConfig \<and>
   isPoolHealthy s' \<and>
   created s' = Suc (created s)"
  by (auto simp: updateDatabaseConfig_def update_try_def isPoolReady_def driver_defs Let_def
      split: option.splits outcome.splits prod.splits sum.splits)

lemma update_success_created:
  "updateDatabaseConfig newConfig oldProbe (Resolved u) endOut s = (r, s') \<Longrightarrow>
   CreatePool \<lparr>hid = created s, options = spread (spread (dbConfig s) newConfig) pool_options\<rparr>
     \<in> set (trace s')"
  by (auto simp: updateDatabaseConfig_def update_try_def isPoolReady_def driver_defs Let_def
      split: option.splits outcome.splits prod.splits sum.splits)

lemma update_success_closed:
  "updateDatabaseConfig newConfig oldProbe (Resolved u) endOut s = (r, s') \<Longrightarrow>
   pool s = Some old \<Longrightarrow> closed s' old"
  by (auto simp: updateDatabaseConfig_def update_try_def isPoolReady_def driver_defs Let_def
        closed_def
      split: option.splits outcome.splits prod.splits sum.splits)

text \<open>
  The function and the suspension-by-suspension model agree: a call that no other
  request interleaves with ends as \<open>updateDatabaseConfig\<close> says.
\<close>

lemma alone_agrees:
  "updateDatabaseConfig newConfig oldProbe candProbe endOut s = (Inr r, s') \<Longrightarrow>
   run (alone s oldProbe candProbe endOut) ([Start newConfig], s) = ([Done r], s')"
  by (auto simp: updateDatabaseConfig_def update_try_def isPoolReady_def driver_defs Let_def
        run_def alone_def build_candidate_def
      split: option.splits outcome.splits prod.splits sum.splits)

text \<open>The two halves of \<open>initializeDatabase\<close> make up the whole.\<close>

lemma initialize_in_two_steps:
  "initializeDatabase (Resolved ()) s =
     Some (finish_initialize (fst (begin_initialize s)) (snd (begin_initialize s)))"
  "initializeDatabase (Rejected m) s = None"
  by (simp_all add: initializeDatabase_def begin_initialize_def finish_initialize_def
      driver_defs Let_def)

lemma listening_examples:
  "listening default_config [] = connecting"
  "listening default_config [InitSettled first_pool] = serving"
  by (simp_all add: listening_def begin_initialize_def finish_initialize_def module_loaded_def
      driver_defs connecting_def serving_def first_pool_def Let_def)










section \<open>The claims\<close>

text \<open>
  C1. Claimed: when the candidate's probe fails, \<open>updateDatabaseConfig\<close> leaves both
  \<open>pool\<close> and \<open>dbConfig\<close> as they were and returns \<open>{success: false, message}\<close>.
  The code assigns the merged configuration to \<open>dbConfig\<close> (line 78) before it probes
  the candidate and never restores it. In the run below the serving module is asked to
  move to host \<open>10.0.0.9\<close> and the candidate's probe times out: the failure
  result is returned and \<open>pool\<close> is kept, but \<open>dbConfig\<close> now names the host that
  was refused.
\<close>

theorem failed_update_overwrites_config:
  "fst failed_run = Inr \<lparr>success = False, message = ''connect ETIMEDOUT''\<rparr> \<and>
   pool (snd failed_run) = pool serving \<and>
   get_prop (dbConfig serving) ''host'' = JStr ''localhost'' \<and>
   get_prop (dbConfig (snd failed_run)) ''host'' = JStr ''10.0.0.9'' \<and>
   dbConfig (snd failed_run) \<noteq> dbConfig serving"
proof -
  have before: "get_prop (dbConfig serving) ''host'' = JStr ''localhost''"
    by (simp add: serving_def example_hosts)
  have after: "get_prop (dbConfig (snd failed_run)) ''host'' = JStr ''10.0.0.9''"
    by (simp add: failed_run_eq example_hosts)
  from before after have "dbConfig (snd failed_run) \<noteq> dbConfig serving"
    by auto
  with before after show ?thesis
    by (simp add: failed_run_eq serving_def)
qed

text \<open>
  C2. When the candidate's probe succeeds, \<open>updateDatabaseConfig\<close> returns
  \<open>{success: true, message}\<close>; the active handle is the pool created by this call
  from \<open>newConfig\<close> merged over the prior \<open>dbConfig\<close> (a field absent from
  \<open>newConfig\<close> keeps its prior value, a field present takes the new one); the healthy
  flag is true; and \<open>end()\<close> has been called on the handle that was active before,
  whether or not that call reported an error.
\<close>

theorem successful_update:
  "updateDatabaseConfig newConfig oldProbe (Resolved u) endOut s = (r, s') \<Longrightarrow>
   r = Inr \<lparr>success = True, message = updated_message\<rparr> \<and>
   pool s' =
     Some \<lparr>hid = created s, options = spread (spread (dbConfig s) newConfig) pool_options\<rparr> \<and>
   CreatePool \<lparr>hid = created s, options = spread (spread (dbConfig s) newConfig) pool_options\<rparr>
     \<in> set (trace s') \<and>
   dbConfig s' = spread (dbConfig s) newConfig \<and>
   (\<forall>k. newConfig k = None \<longrightarrow> dbConfig s' k = dbConfig s k) \<and>
   (\<forall>k v. newConfig k = Some v \<longrightarrow> dbConfig s' k = Some v) \<and>
   isPoolHealthy s' \<and>
   (\<forall>old. pool s = Some old \<longrightarrow> closed s' old)"
proof -
  assume run: "updateDatabaseConfig newConfig oldProbe (Resolved u) endOut s = (r, s')"
  note facts = update_success [OF run]
  from facts have cfg: "dbConfig s' = spread (dbConfig s) newConfig"
    by simp
  have kept: "\<forall>k. newConfig k = None \<longrightarrow> dbConfig s' k = dbConfig s k"
    by (simp add: cfg spread_absent)
  have taken: "\<forall>k v. newConfig k = Some v \<longrightarrow> dbConfig s' k = Some v"
    by (simp add: cfg spread_present)
  have drained: "\<forall>old. pool s = Some old \<longrightarrow> closed s' old"
    using update_success_closed [OF run] by blast
  from facts kept taken drained update_success_created [OF run] show ?thesis
    by simp
qed

theorem successful_update_witness:
  "fst partial_run = Inr \<lparr>success = True, message = updated_message\<rparr> \<and>
   pool (snd partial_run) = Some partial_pool \<and>
   get_prop (dbConfig (snd partial_run)) ''host'' = JStr ''10.0.0.9'' \<and>
   get_prop (dbConfig (snd partial_run)) ''port'' = JNum 3306 \<and>
   isPoolHealthy (snd partial_run) \<and>
   closed (snd partial_run) first_pool"
proof -
  have run: "updateDatabaseConfig host_only (Resolved ()) (Resolved ()) timed_out serving
               = (fst partial_run, snd partial_run)"
    by (simp add: partial_run_def)
  note facts = successful_update [OF run]
  have old: "pool serving = Some first_pool"
    by (simp add: serving_def)
  from facts old have drained: "closed (snd partial_run) first_pool"
    by blast
  from facts have cfg: "dbConfig (snd partial_run) = spread default_config host_only"
    by (simp add: serving_def)
  from facts have new: "pool (snd partial_run) = Some partial_pool"
    by (simp add: serving_def partial_pool_def)
  from facts have res: "fst partial_run = Inr \<lparr>success = True, message = updated_message\<rparr>"
    by blast
  from facts have flag: "isPoolHealthy (snd partial_run)"
    by blast
  have fields:
    "get_prop (dbConfig (snd partial_run)) ''host'' = JStr ''10.0.0.9''"
    "get_prop (dbConfig (snd partial_run)) ''port'' = JNum 3306"
    by (simp_all add: cfg example_hosts)
  from res new fields flag drained show ?thesis
    by blast
qed

text \<open>
  C3. Claimed: when the candidate's probe fails, the healthy flag ends up equal to the
  old handle's last known probe result, and the candidate's failure alone never forces
  it to false. In the code the \<open>catch\<close> block sets \<open>isPoolHealthy = false\<close>
  whenever \<open>pool\<close> is set (lines 115 to 118). In the run below the flag was true, the
  probe of the old pool made by this very call succeeds, and the flag is false afterwards.
\<close>

theorem failed_update_marks_unhealthy:
  "isPoolHealthy serving \<and>
   fst (isPoolReady (Resolved ()) serving) = Inr True \<and>
   \<not> isPoolHealthy (snd failed_run)"
  by (simp add: failed_run_eq serving_def isPoolReady_def driver_defs)

text \<open>
  C3, as the code has it: when the candidate's probe fails, the healthy flag is false
  afterwards if there is an active handle, whatever the old handle's probe said, and is
  left as it was if there is none.
\<close>

theorem failed_update_healthy_flag:
  "updateDatabaseConfig newConfig oldProbe (Rejected m) endOut s = (r, s') \<Longrightarrow>
   isPoolHealthy s' = (case pool s of None \<Rightarrow> isPoolHealthy s | Some p \<Rightarrow> False)"
  using update_failure by blast

theorem failed_update_healthy_flag_witness:
  "isPoolHealthy (snd failed_run) = False"
proof -
  have run: "updateDatabaseConfig other_host (Resolved ()) (Rejected ''connect ETIMEDOUT'')
               (Resolved ()) serving = (fst failed_run, snd failed_run)"
    by (simp add: failed_run_def timed_out_def)
  from failed_update_healthy_flag [OF run] show ?thesis
    by (simp add: serving_def)
qed

text \<open>
  C4. Claimed: in a successful reconfiguration the candidate is installed as the active
  pool before the old pool is closed, so the active handle is never a closed pool. The
  code calls \<open>oldPool.end()\<close> and waits for it (line 97) before it assigns
  \<open>pool = newPool\<close> (line 106). Below, the serving module is reconfigured and every
  promise resolves; when the call is suspended at \<open>await oldPool.end()\<close>, where other
  requests run, the module's \<open>pool\<close> is still the first pool and \<open>end()\<close> has been
  called on it. Only the next resumption installs the candidate.
\<close>

theorem old_pool_closed_while_active:
  "fst (run [(0, Resolved ()), (0, Resolved ()), (0, Resolved ())] ([Start other_host], serving))
     = [AwaitEnd second_pool] \<and>
   pool (snd (run [(0, Resolved ()), (0, Resolved ()), (0, Resolved ())]
                ([Start other_host], serving))) = Some first_pool \<and>
   closed (snd (run [(0, Resolved ()), (0, Resolved ()), (0, Resolved ())]
                  ([Start other_host], serving))) first_pool \<and>
   pool (snd (run [(0, Resolved ()), (0, Resolved ()), (0, Resolved ()), (0, Resolved ())]
                ([Start other_host], serving))) = Some second_pool"
  by (simp add: run_def build_candidate_def driver_defs serving_def second_pool_def closed_def
      Let_def)

text \<open>
  C5. Claimed: when the candidate's probe fails, the candidate handle is closed before
  the failure result is returned. The code never calls \<open>end()\<close> on the candidate:
  \<open>newPool\<close> is local to the \<open>try\<close> block and the \<open>catch\<close> block does not see
  it. In the run below the candidate was created and probed, and is not closed when the
  call has returned.
\<close>

theorem failed_update_leaves_candidate_open:
  "CreatePool second_pool \<in> set (trace (snd failed_run)) \<and>
   GetConnection second_pool \<in> set (trace (snd failed_run)) \<and>
   \<not> closed (snd failed_run) second_pool"
  by (simp add: failed_run_eq closed_def)

text \<open>
  C5, as the code has it: when the candidate's probe fails, \<open>updateDatabaseConfig\<close>
  returns its failure result without closing any pool. The candidate it created is
  dropped as it is, and a pool is closed after the call exactly if it was closed before.
\<close>

theorem failed_update_closes_nothing:
  "updateDatabaseConfig newConfig oldProbe (Rejected m) endOut s = (r, s') \<Longrightarrow>
   r = Inr \<lparr>success = False, message = m\<rparr> \<and>
   CreatePool \<lparr>hid = created s, options = spread (spread (dbConfig s) newConfig) pool_options\<rparr>
     \<in> set (trace s') \<and>
   (\<forall>h. closed s' h = closed s h)"
proof -
  assume run: "updateDatabaseConfig newConfig oldProbe (Rejected m) endOut s = (r, s')"
  from update_failure [OF run] have "r = Inr \<lparr>success = False, message = m\<rparr>"
    by simp
  moreover from update_failure_trace [OF run] have
    "CreatePool \<lparr>hid = created s, options = spread (spread (dbConfig s) newConfig) pool_options\<rparr>
       \<in> set (trace s')"
    by simp
  moreover from update_failure_trace [OF run] have "\<forall>h. closed s' h = closed s h"
    by simp
  ultimately show ?thesis
    by simp
qed

theorem failed_update_closes_nothing_witness:
  "fst failed_run = Inr \<lparr>success = False, message = ''connect ETIMEDOUT''\<rparr> \<and>
   CreatePool second_pool \<in> set (trace (snd failed_run)) \<and>
   closed (snd failed_run) second_pool = closed serving second_pool \<and>
   \<not> closed serving second_pool"
proof -
  have run: "updateDatabaseConfig other_host (Resolved ()) (Rejected ''connect ETIMEDOUT'')
               (Resolved ()) serving = (fst failed_run, snd failed_run)"
    by (simp add: failed_run_def timed_out_def)
  note facts = failed_update_closes_nothing [OF run]
  have fresh: "\<not> closed serving second_pool"
    by (simp add: closed_def serving_def)
  from facts fresh show ?thesis
    by (simp add: serving_def second_pool_def)
qed




text \<open>
  C7. \<open>PUT /api/database/config\<close>: when any of \<open>host\<close>, \<open>port\<close>, \<open>username\<close>,
  \<open>database\<close> is missing or empty (what the handler's \<open>!\<close> test accepts: absent,
  \<open>null\<close>, the empty string, 0, \<open>false\<close>), the answer is 400 with
  \<open>success: false\<close> and the module state, its trace of driver calls included, is
  untouched. When all four are present, \<open>updateDatabaseConfig\<close> runs on the requested
  configuration and returns a result; the answer is that result, with status 200 when it
  is a success and 500 when it is a failure.
\<close>

theorem put_config_validates:
  "(\<not> truthy (get_prop reqBody ''host'') \<or> \<not> truthy (get_prop reqBody ''port'') \<or>
    \<not> truthy (get_prop reqBody ''username'') \<or> \<not> truthy (get_prop reqBody ''database'')
    \<longrightarrow>
      put_database_config parseInt reqBody oldProbe candProbe endOut s =
        (\<lparr>status = 400,
          body = result_json \<lparr>success = False, message = missing_fields_message\<rparr>\<rparr>, s)) \<and>
   (truthy (get_prop reqBody ''host'') \<and> truthy (get_prop reqBody ''port'') \<and>
    truthy (get_prop reqBody ''username'') \<and> truthy (get_prop reqBody ''database'')
    \<longrightarrow>
      (\<exists>r s'.
         updateDatabaseConfig (requested_config parseInt reqBody) oldProbe candProbe endOut s
           = (Inr r, s') \<and>
         put_database_config parseInt reqBody oldProbe candProbe endOut s =
           (\<lparr>status = (if success r then 200 else 500), body = result_json r\<rparr>, s')))"
proof -
  obtain r s' where run:
    "updateDatabaseConfig (requested_config parseInt reqBody) oldProbe candProbe endOut s
       = (Inr r, s')"
    using update_returns by blast
  show ?thesis
    by (auto simp: put_database_config_def run Let_def)
qed

theorem put_config_validates_witness:
  "put_database_config (\<lambda>v. v) (put_body []) (Resolved ()) (Resolved ()) (Resolved ()) serving =
     (\<lparr>status = 400,
       body = result_json \<lparr>success = False, message = missing_fields_message\<rparr>\<rparr>, serving) \<and>
   put_database_config (\<lambda>v. v) (put_body ''10.0.0.9'') (Resolved ()) (Resolved ()) (Resolved ())
       serving =
     (\<lparr>status = 200,
       body = result_json \<lparr>success = True, message = updated_message\<rparr>\<rparr>, snd good_run) \<and>
   put_database_config (\<lambda>v. v) (put_body ''10.0.0.9'') (Resolved ()) timed_out (Resolved ())
       serving =
     (\<lparr>status = 500,
       body = result_json \<lparr>success = False, message = ''connect ETIMEDOUT''\<rparr>\<rparr>, snd failed_run)"
proof -
  have empty_host: "\<not> truthy (get_prop (put_body []) ''host'')"
    by (simp add: put_body_def get_prop_def)
  have present:
    "truthy (get_prop (put_body ''10.0.0.9'') ''host'') \<and>
     truthy (get_prop (put_body ''10.0.0.9'') ''port'') \<and>
     truthy (get_prop (put_body ''10.0.0.9'') ''username'') \<and>
     truthy (get_prop (put_body ''10.0.0.9'') ''database'')"
    by (simp add: put_body_def get_prop_def)
  have good:
    "updateDatabaseConfig (requested_config (\<lambda>v. v) (put_body ''10.0.0.9''))
       (Resolved ()) (Resolved ()) (Resolved ()) serving
     = (Inr \<lparr>success = True, message = updated_message\<rparr>, snd good_run)"
    using good_run_eq by (simp add: good_run_def other_host_def)
  have bad:
    "updateDatabaseConfig (requested_config (\<lambda>v. v) (put_body ''10.0.0.9''))
       (Resolved ()) timed_out (Resolved ()) serving
     = (Inr \<lparr>success = False, message = ''connect ETIMEDOUT''\<rparr>, snd failed_run)"
    using failed_run_eq by (simp add: failed_run_def other_host_def)
  from empty_host
    put_config_validates [of "put_body []" "\<lambda>v. v" "Resolved ()" "Resolved ()" "Resolved ()" serving]
  have rejected:
    "put_database_config (\<lambda>v. v) (put_body []) (Resolved ()) (Resolved ()) (Resolved ()) serving =
     (\<lparr>status = 400,
       body = result_json \<lparr>success = False, message = missing_fields_message\<rparr>\<rparr>, serving)"
    by blast
  from present good
    put_config_validates [of "put_body ''10.0.0.9''" "\<lambda>v. v" "Resolved ()" "Resolved ()"
      "Resolved ()" serving]
  have accepted:
    "put_database_config (\<lambda>v. v) (put_body ''10.0.0.9'') (Resolved ()) (Resolved ()) (Resolved ())
       serving =
     (\<lparr>status = 200,
       body = result_json \<lparr>success = True, message = updated_message\<rparr>\<rparr>, snd good_run)"
    by auto
  from present bad
    put_config_validates [of "put_body ''10.0.0.9''" "\<lambda>v. v" "Resolved ()" timed_out
      "Resolved ()" serving]
  have refused:
    "put_database_config (\<lambda>v. v) (put_body ''10.0.0.9'') (Resolved ()) timed_out (Resolved ())
       serving =
     (\<lparr>status = 500,
       body = result_json \<lparr>success = False, message = ''connect ETIMEDOUT''\<rparr>\<rparr>, snd failed_run)"
    by auto
  from rejected accepted refused show ?thesis
    by simp
qed

text \<open>
  C8. \<open>GET /api/database/config\<close> answers \<open>{success: true, config}\<close> where
  \<open>config\<close> has the fields \<open>host\<close>, \<open>port\<close>, \<open>username\<close> and \<open>database\<close> and
  no other, and the answer does not depend on the password: two states whose
  \<open>dbConfig\<close> differ in the \<open>password\<close> field only get the same response.
\<close>

theorem config_view_hides_password:
  "body (get_database_config s) =
     JObj [''success'' \<mapsto> JBool True, ''config'' \<mapsto> JObj (redacted_config (dbConfig s))] \<and>
   dom (redacted_config (dbConfig s)) = {''host'', ''port'', ''username'', ''database''} \<and>
   ((\<forall>k. k \<noteq> ''password'' \<longrightarrow> dbConfig s k = dbConfig t k) \<longrightarrow>
      get_database_config s = get_database_config t)"
proof -
  have shape: "dom (redacted_config (dbConfig s)) = {''host'', ''port'', ''username'', ''database''}"
    by (auto simp: redacted_config_def)
  have same: "get_database_config s = get_database_config t"
    if agree: "\<forall>k. k \<noteq> ''password'' \<longrightarrow> dbConfig s k = dbConfig t k"
  proof -
    from agree have
      "dbConfig s ''host'' = dbConfig t ''host''"
      "dbConfig s ''port'' = dbConfig t ''port''"
      "dbConfig s ''user'' = dbConfig t ''user''"
      "dbConfig s ''database'' = dbConfig t ''database''"
      by simp_all
    then have "redacted_config (dbConfig s) = redacted_config (dbConfig t)"
      by (simp add: redacted_config_def get_prop_def)
    then show ?thesis
      by (simp add: get_database_config_def)
  qed
  from shape same show ?thesis
    by (simp add: get_database_config_def)
qed

theorem config_view_hides_password_witness:
  "dbConfig (with_password ''hunter2'') ''password'' \<noteq> dbConfig (with_password ''swordfish'') ''password'' \<and>
   get_database_config (with_password ''hunter2'') = get_database_config (with_password ''swordfish'') \<and>
   dom (redacted_config (dbConfig (with_password ''hunter2''))) =
     {''host'', ''port'', ''username'', ''database''}"
proof -
  have agree:
    "\<forall>k. k \<noteq> ''password'' \<longrightarrow>
       dbConfig (with_password ''hunter2'') k = dbConfig (with_password ''swordfish'') k"
    by (simp add: with_password_def)
  have differ:
    "dbConfig (with_password ''hunter2'') ''password'' \<noteq>
     dbConfig (with_password ''swordfish'') ''password''"
    by (simp add: with_password_def)
  from agree differ
    config_view_hides_password [of "with_password ''hunter2''" "with_password ''swordfish''"]
  show ?thesis
    by blast
qed

text \<open>
  C9. Claimed: of two reconfiguration requests issued together at most one is in the
  Validating or Swapping phase at any time, the other being queued or rejected. The
  code has no lock, queue or "in progress" flag. Below, two calls are started on the
  serving module and the probes of the current pool resolve: both calls are then
  suspended in Validating, each on a candidate pool of its own. Resumed to the end, both
  report success, the second call's pool is the active one, \<open>end()\<close> has been called
  twice on the first pool and never on the first call's candidate.
\<close>

theorem two_updates_validate_together:
  "fst (run (overlapped serving (Resolved ()) (Resolved ())) ([Start other_host, Start host_only], serving))
     = [AwaitCandidate (Some first_pool) second_pool, AwaitCandidate (Some first_pool) third_pool] \<and>
   validating (AwaitCandidate (Some first_pool) second_pool) \<and>
   validating (AwaitCandidate (Some first_pool) third_pool) \<and>
   second_pool \<noteq> third_pool \<and>
   fst (run (overlapped serving (Resolved ()) (Resolved ())
             @ [(0, Resolved ()), (1, Resolved ()), (0, Resolved ()), (1, Resolved ())])
          ([Start other_host, Start host_only], serving))
     = [Done \<lparr>success = True, message = updated_message\<rparr>,
        Done \<lparr>success = True, message = updated_message\<rparr>] \<and>
   pool (snd (run (overlapped serving (Resolved ()) (Resolved ())
             @ [(0, Resolved ()), (1, Resolved ()), (0, Resolved ()), (1, Resolved ())])
          ([Start other_host, Start host_only], serving))) = Some third_pool \<and>
   \<not> closed (snd (run (overlapped serving (Resolved ()) (Resolved ())
             @ [(0, Resolved ()), (1, Resolved ()), (0, Resolved ()), (1, Resolved ())])
          ([Start other_host, Start host_only], serving))) second_pool"
  by (simp add: run_def overlapped_def build_candidate_def driver_defs serving_def
      second_pool_def third_pool_def first_pool_def closed_def Let_def)

text \<open>
  C9, as the code has it: \<open>updateDatabaseConfig\<close> takes no lock. Of two
  reconfiguration requests issued together, from any state, neither is queued or
  rejected: once both are started and their probes of the current pool (if there is one)
  have settled, whichever way, both are in the Validating phase at the same time, each
  with a candidate pool of its own.
\<close>

theorem updates_are_not_exclusive:
  "fst (run (overlapped s probe0 probe1) ([Start config0, Start config1], s)) =
     [AwaitCandidate (pool s)
        \<lparr>hid = created s, options = spread (spread (dbConfig s) config0) pool_options\<rparr>,
      AwaitCandidate (pool s)
        \<lparr>hid = Suc (created s),
         options = spread (spread (spread (dbConfig s) config0) config1) pool_options\<rparr>] \<and>
   validating (fst (run (overlapped s probe0 probe1) ([Start config0, Start config1], s)) ! 0) \<and>
   validating (fst (run (overlapped s probe0 probe1) ([Start config0, Start config1], s)) ! 1)"
proof -
  have tasks:
    "fst (run (overlapped s probe0 probe1) ([Start config0, Start config1], s)) =
       [AwaitCandidate (pool s)
          \<lparr>hid = created s, options = spread (spread (dbConfig s) config0) pool_options\<rparr>,
        AwaitCandidate (pool s)
          \<lparr>hid = Suc (created s),
           options = spread (spread (spread (dbConfig s) config0) config1) pool_options\<rparr>]"
    by (cases "pool s"; cases probe0; cases probe1)
      (simp_all add: run_def overlapped_def build_candidate_def driver_defs Let_def)
  show ?thesis
    unfolding tasks by simp
qed

theorem updates_are_not_exclusive_witness:
  "validating
     (fst (run [(0, Resolved ()), (1, Resolved ())] ([Start other_host, Start host_only], startup))
        ! 0) \<and>
   validating
     (fst (run [(0, Resolved ()), (1, Resolved ())] ([Start other_host, Start host_only], startup))
        ! 1)"
  using updates_are_not_exclusive [of startup "Resolved ()" "Resolved ()" other_host host_only]
  by (simp add: overlapped_def startup_def)

text \<open>
  C10. \<open>isPoolReady\<close> always returns a boolean and never throws: with no pool ever
  created it returns false at once, leaving the state and the trace of driver calls as
  they are (no connection is asked for), and when the acquisition fails it returns
  false.
\<close>

theorem isPoolReady_total:
  "(pool s = None \<longrightarrow> isPoolReady acq s = (Inr False, s)) \<and>
   fst (isPoolReady (Rejected m) s) = Inr False \<and>
   (\<exists>b s'. isPoolReady acq s = (Inr b, s'))"
  by (auto simp: isPoolReady_def getConnection_def split: option.splits outcome.splits)

theorem isPoolReady_total_witness:
  "isPoolReady (Resolved ()) startup = (Inr False, startup) \<and>
   fst (isPoolReady (Rejected ''connect ECONNREFUSED'') serving) = Inr False"
proof -
  have none: "pool startup = None"
    by (simp add: startup_def)
  from none isPoolReady_total [of startup "Resolved ()"]
  have "isPoolReady (Resolved ()) startup = (Inr False, startup)"
    by blast
  moreover from isPoolReady_total [of serving _ "''connect ECONNREFUSED''"]
  have "fst (isPoolReady (Rejected ''connect ECONNREFUSED'') serving) = Inr False"
    by blast
  ultimately show ?thesis
    by simp
qed

end
